theory Spec2Isabelle
  imports Complex_Main
begin

section \<open>Python values\<close>

text \<open>
  The program handles decoded JSON throughout: \<open>response.json()\<close>, the workflow
  arguments, and the dictionaries it builds itself (\<open>UserMetadata\<close>, \<open>RepoMetadata\<close>,
  \<open>SummaryStats\<close> and \<open>RawData\<close> are \<open>TypedDict\<close>s, plain \<open>dict\<close>s at run time).
  A dictionary is the list of its items; \<open>dict.get\<close> is \<open>map_of\<close> on it.
  Functions keep their names from the source, without a leading underscore.
\<close>

datatype json =
    JNull
  | JBool bool
  | JInt int
  | JFloat real
  | JStr string
  | JArr "json list"
  | JObj "(string \<times> json) list"

type_synonym dict = "(string \<times> json) list"

text \<open>The exceptions that the modelled code can meet.\<close>

datatype py_error =
    HTTPStatusError int
  | TransportError
  | JSONDecodeError
  | AttributeError
  | TypeError
  | ValueError string
  | ActivityError string

text \<open>Python truth value testing: \<open>None\<close>, \<open>False\<close>, zero, and empty
  strings, lists and dictionaries are false.\<close>

fun truthy :: "json \<Rightarrow> bool" where
  "truthy JNull = False"
| "truthy (JBool b) = b"
| "truthy (JInt n) = (n \<noteq> 0)"
| "truthy (JFloat r) = (r \<noteq> 0)"
| "truthy (JStr s) = (s \<noteq> [])"
| "truthy (JArr xs) = (xs \<noteq> [])"
| "truthy (JObj kvs) = (kvs \<noteq> [])"

text \<open>\<open>a or b\<close>\<close>

definition py_or :: "json \<Rightarrow> json \<Rightarrow> json" where
  "py_or a b = (if truthy a then a else b)"

text \<open>\<open>d.get(k)\<close> and \<open>d.get(k, default)\<close>\<close>

definition py_get :: "dict \<Rightarrow> string \<Rightarrow> json" where
  "py_get d k = (case map_of d k of None \<Rightarrow> JNull | Some v \<Rightarrow> v)"

definition py_get_default :: "dict \<Rightarrow> string \<Rightarrow> json \<Rightarrow> json" where
  "py_get_default d k dflt = (case map_of d k of None \<Rightarrow> dflt | Some v \<Rightarrow> v)"

section \<open>clients.py\<close>

subsection \<open>\<open>GitHubClient._normalize_user_json\<close>\<close>

text \<open>
  The static method calls \<open>user_json.get\<close> eighteen times and builds a dictionary.
  On a value that is not a dictionary the first \<open>.get\<close> raises \<open>AttributeError\<close>.
\<close>

fun normalize_user_json :: "json \<Rightarrow> py_error + json" where
  "normalize_user_json (JObj user_json) = Inr (JObj
     [(''name'', py_or (py_or (py_get user_json ''name'') (py_get user_json ''login'')) (JStr ''N/A'')),
      (''node_id'', py_or (py_get user_json ''node_id'') (JStr ''N/A'')),
      (''profile_url'', py_or (py_get user_json ''html_url'') (JStr ''N/A'')),
      (''avatar_url'', py_or (py_get user_json ''avatar_url'') (JStr ''N/A'')),
      (''type'', py_or (py_get user_json ''type'') (JStr ''N/A'')),
      (''company'', py_or (py_get user_json ''company'') (JStr ''N/A'')),
      (''location'', py_or (py_get user_json ''location'') (JStr ''N/A'')),
      (''email'', py_or (py_get user_json ''email'') (JStr ''N/A'')),
      (''blog'', py_or (py_get user_json ''blog'') (JStr ''N/A'')),
      (''twitter_username'', py_or (py_get user_json ''twitter_username'') (JStr ''N/A'')),
      (''created_at'', py_or (py_get user_json ''created_at'') (JStr ''N/A'')),
      (''followers_url'', py_or (py_get user_json ''followers_url'') (JStr ''N/A'')),
      (''following_url'', py_or (py_get user_json ''following_url'') (JStr ''N/A'')),
      (''bio'', py_or (py_get user_json ''bio'') (JStr ''No bio provided.'')),
      (''followers'', py_or (py_get_default user_json ''followers'' (JInt 0)) (JInt 0)),
      (''following'', py_or (py_get_default user_json ''following'' (JInt 0)) (JInt 0)),
      (''public_repos'', py_or (py_get_default user_json ''public_repos'' (JInt 0)) (JInt 0)),
      (''public_gists'', py_or (py_get_default user_json ''public_gists'' (JInt 0)) (JInt 0))])"
| "normalize_user_json _ = Inl AttributeError"

subsection \<open>HTTP requests\<close>

text \<open>
  A request is what \<open>client.get(endpoint, params=params)\<close> sends: the headers that
  \<open>_get_client\<close> configured, the endpoint and the query parameters. The endpoints are
  the f-strings \<open>/users/{username}\<close> and \<open>/users/{username}/repos\<close>; the model keeps
  the value that is formatted into them.
\<close>

datatype header = Accept string | AuthorizationBearer json

datatype endpoint = UsersEndpoint json | UsersReposEndpoint json

record http_get =
  headers :: "header list"
  endpoint :: endpoint
  params :: "(string \<times> int) list"

text \<open>
  The remote side. An answer is what \<open>client.get\<close>, \<open>response.raise_for_status()\<close>
  and \<open>response.json()\<close> leave together: the exception one of them raised, or the
  decoded body. Within one fetch every request differs from the others (by its page
  number), so a function of the request stands for any sequence of answers.
\<close>

type_synonym upstream = "http_get \<Rightarrow> py_error + json"

text \<open>\<open>GitHubClient._get_client\<close>: the headers of the shared \<open>httpx.AsyncClient\<close>.\<close>

definition get_client :: "json \<Rightarrow> header list" where
  "get_client pat =
     Accept ''application/vnd.github.v3+json'' #
       (if truthy pat then [AuthorizationBearer pat] else [])"

subsection \<open>\<open>GitHubClient.fetch_user_profile_data\<close>\<close>

text \<open>Both \<open>except\<close> clauses log and re-raise. The second component is the list of
  requests sent.\<close>

definition user_request :: "json \<Rightarrow> json \<Rightarrow> http_get" where
  "user_request pat username =
     \<lparr>headers = get_client pat, endpoint = UsersEndpoint username, params = []\<rparr>"

definition fetch_user_profile_data ::
  "upstream \<Rightarrow> json \<Rightarrow> json \<Rightarrow> (py_error + json) \<times> http_get list" where
  "fetch_user_profile_data up pat username =
     (case up (user_request pat username) of
        Inl e \<Rightarrow> (Inl e, [user_request pat username])
      | Inr user_json \<Rightarrow> (normalize_user_json user_json, [user_request pat username]))"

subsection \<open>\<open>GitHubClient.fetch_all_repository_data\<close>\<close>

text \<open>The dictionary display inside the list comprehension.\<close>

definition repo_record :: "dict \<Rightarrow> json" where
  "repo_record repo = JObj
     [(''name'', py_get repo ''name''),
      (''description'', py_get repo ''description''),
      (''language'', py_get repo ''language''),
      (''star_count'', py_get repo ''stargazers_count''),
      (''fork_count'', py_get repo ''forks_count''),
      (''issue_count'', py_get repo ''open_issues_count''),
      (''created_at'', py_get repo ''created_at''),
      (''updated_at'', py_get repo ''updated_at''),
      (''url'', py_get repo ''html_url'')]"

fun normalize_repo :: "json \<Rightarrow> py_error + json" where
  "normalize_repo (JObj repo) = Inr (repo_record repo)"
| "normalize_repo _ = Inl AttributeError"

text \<open>\<open>for repo in page_data\<close>: a list yields its elements, a dictionary its keys, a
  string its characters; nothing else is iterable.\<close>

fun py_iter :: "json \<Rightarrow> py_error + json list" where
  "py_iter (JArr xs) = Inr xs"
| "py_iter (JObj kvs) = Inr (map JStr (remdups (map fst kvs)))"
| "py_iter (JStr s) = Inr (map (\<lambda>c. JStr [c]) s)"
| "py_iter _ = Inl TypeError"

text \<open>The comprehension evaluates its element expression in order and stops at the
  first exception.\<close>

fun normalize_each :: "json list \<Rightarrow> py_error + json list" where
  "normalize_each [] = Inr []"
| "normalize_each (repo # rest) =
     (case normalize_repo repo of
        Inl e \<Rightarrow> Inl e
      | Inr r \<Rightarrow> (case normalize_each rest of Inl e \<Rightarrow> Inl e | Inr rs \<Rightarrow> Inr (r # rs)))"

definition normalized_page_repos :: "json \<Rightarrow> py_error + json list" where
  "normalized_page_repos page_data =
     (case py_iter page_data of Inl e \<Rightarrow> Inl e | Inr items \<Rightarrow> normalize_each items)"

definition repos_request :: "json \<Rightarrow> json \<Rightarrow> int \<Rightarrow> http_get" where
  "repos_request pat username page_num =
     \<lparr>headers = get_client pat, endpoint = UsersReposEndpoint username,
      params = [(''page'', page_num), (''per_page'', 100)]\<rparr>"

text \<open>
  The body of \<open>for page_num in itertools.count(1)\<close>, with the loop variable, the
  accumulator \<open>all_repos\<close> and the requests sent so far as arguments. The loop has no
  bound: where it never leaves, the value is \<open>None\<close>.
\<close>

partial_function (option) fetch_pages ::
  "upstream \<Rightarrow> json \<Rightarrow> json \<Rightarrow> int \<Rightarrow> json list \<Rightarrow> http_get list
     \<Rightarrow> ((py_error + json list) \<times> http_get list) option" where
  "fetch_pages up pat username page_num all_repos sent =
     (case up (repos_request pat username page_num) of
        Inl e \<Rightarrow> Some (Inl e, sent @ [repos_request pat username page_num])
      | Inr page_data \<Rightarrow>
          if \<not> truthy page_data
          then Some (Inr all_repos, sent @ [repos_request pat username page_num])
          else (case normalized_page_repos page_data of
                  Inl e \<Rightarrow> Some (Inl e, sent @ [repos_request pat username page_num])
                | Inr normalized \<Rightarrow>
                    fetch_pages up pat username (page_num + 1) (all_repos @ normalized)
                      (sent @ [repos_request pat username page_num])))"

definition fetch_all_repository_data ::
  "upstream \<Rightarrow> json \<Rightarrow> json \<Rightarrow> ((py_error + json list) \<times> http_get list) option" where
  "fetch_all_repository_data up pat username = fetch_pages up pat username 1 [] []"

section \<open>activities.py\<close>

subsection \<open>\<open>_resolve_credentials\<close>\<close>

type_synonym environ = "string \<Rightarrow> string option"

definition getenv :: "environ \<Rightarrow> string \<Rightarrow> json" where
  "getenv env k = (case env k of None \<Rightarrow> JNull | Some s \<Rightarrow> JStr s)"

text \<open>\<open>(workflow_args or {}).get(key) if workflow_args else None\<close>\<close>

definition args_get :: "json \<Rightarrow> string \<Rightarrow> py_error + json" where
  "args_get workflow_args k =
     (if truthy workflow_args
      then (case py_or workflow_args (JObj []) of
              JObj d \<Rightarrow> Inr (py_get d k)
            | _ \<Rightarrow> Inl AttributeError)
      else Inr JNull)"

definition resolve_credentials :: "json \<Rightarrow> environ \<Rightarrow> py_error + (json \<times> json)" where
  "resolve_credentials workflow_args env =
     (case args_get workflow_args ''username'' of
        Inl e \<Rightarrow> Inl e
      | Inr username \<Rightarrow>
          (case args_get workflow_args ''pat'' of
             Inl e \<Rightarrow> Inl e
           | Inr pat \<Rightarrow>
               Inr (if \<not> truthy username then getenv env ''GITHUB_USERNAME'' else username,
                    if \<not> truthy pat then getenv env ''GITHUB_PAT'' else pat)))"

subsection \<open>\<open>GitHubActivities.preflight_check\<close>\<close>

text \<open>The \<open>except Exception\<close> clause logs and re-raises; \<open>return None\<close> is \<open>Inr JNull\<close>.\<close>

definition preflight_check ::
  "upstream \<Rightarrow> environ \<Rightarrow> json \<Rightarrow> (py_error + json) \<times> http_get list" where
  "preflight_check up env workflow_args =
     (case resolve_credentials workflow_args env of
        Inl e \<Rightarrow> (Inl e, [])
      | Inr (effective_username, effective_pat) \<Rightarrow>
          if \<not> truthy effective_pat
          then (Inl (ValueError ''Personal Access Token (PAT) is missing.''), [])
          else if \<not> truthy effective_username
          then (Inl (ValueError ''GitHub username is missing.''), [])
          else (case fetch_user_profile_data up effective_pat effective_username of
                  (Inl e, sent) \<Rightarrow> (Inl e, sent)
                | (Inr user_metadata, sent) \<Rightarrow> (Inr JNull, sent)))"

subsection \<open>\<open>GitHubActivities.compute_summary_stats_activity\<close>\<close>

text \<open>\<open>len\<close>: defined on lists, dictionaries and strings.\<close>

fun py_len :: "json \<Rightarrow> py_error + int" where
  "py_len (JArr xs) = Inr (int (length xs))"
| "py_len (JObj kvs) = Inr (int (length (remdups (map fst kvs))))"
| "py_len (JStr s) = Inr (int (length s))"
| "py_len _ = Inl TypeError"

text \<open>The files written, by name; \<open>json.dump\<close> stores the value. A failure of the
  file system itself (\<open>open\<close> raising \<open>OSError\<close>) is not modelled.\<close>

type_synonym files = "string \<Rightarrow> json option"

definition compute_summary_stats_activity ::
  "json \<Rightarrow> files \<Rightarrow> (py_error + json) \<times> files" where
  "compute_summary_stats_activity raw_data fs =
     (case raw_data of
        JObj rd \<Rightarrow>
          (case py_len (py_get_default rd ''repo_data'' (JArr [])) of
             Inl e \<Rightarrow> (Inl e, fs)
           | Inr repo_count \<Rightarrow>
               (case py_get_default rd ''user_data'' (JObj []) of
                  JObj user_metadata \<Rightarrow>
                    (Inr (JObj
                       [(''total_public_repos'', JInt repo_count),
                        (''total_followers'',
                           py_or (py_get_default user_metadata ''followers'' (JInt 0)) (JInt 0)),
                        (''total_following'',
                           py_or (py_get_default user_metadata ''following'' (JInt 0)) (JInt 0)),
                        (''total_public_gists'',
                           py_or (py_get_default user_metadata ''public_gists'' (JInt 0)) (JInt 0))]),
                     fs(''github_summary_stats.json'' \<mapsto> JObj
                       [(''total_public_repos'', JInt repo_count),
                        (''total_followers'',
                           py_or (py_get_default user_metadata ''followers'' (JInt 0)) (JInt 0)),
                        (''total_following'',
                           py_or (py_get_default user_metadata ''following'' (JInt 0)) (JInt 0)),
                        (''total_public_gists'',
                           py_or (py_get_default user_metadata ''public_gists'' (JInt 0)) (JInt 0))]))
                | _ \<Rightarrow> (Inl AttributeError, fs)))
      | _ \<Rightarrow> (Inl AttributeError, fs))"

section \<open>workflow.py\<close>

text \<open>
  \<open>GitHubWorkflow.run\<close> hands every step to \<open>workflow.execute_activity_method\<close> of the
  execution engine, with the options it declares. The engine is outside the
  repository: it is a parameter here, a function from the invocation to what the
  \<open>await\<close> on it finally gives, the activity's result or the exception raised once the
  engine has given up retrying.
\<close>

datatype activity_method =
    PreflightCheck
  | RetrieveUserProfile
  | RetrieveRepositories
  | ComputeSummaryStats

text \<open>A \<open>timedelta\<close>, in seconds.\<close>

type_synonym timedelta = rat

record RetryPolicy =
  maximum_attempts :: int
  backoff_coefficient :: int

record invocation =
  activity :: activity_method
  arg :: json
  retry_policy :: RetryPolicy
  start_to_close_timeout :: timedelta
  heartbeat_timeout :: timedelta

type_synonym engine = "invocation \<Rightarrow> py_error + json"

text \<open>
  The attributes \<open>self.default_start_to_close_timeout\<close> and
  \<open>self.default_heartbeat_timeout\<close>, which \<open>GitHubWorkflow\<close> inherits from
  \<open>application_sdk.workflows.WorkflowInterface\<close>. That class is not among the
  sources, so their values are fields of the instance.
\<close>

record WorkflowInterface =
  default_start_to_close_timeout :: timedelta
  default_heartbeat_timeout :: timedelta

text \<open>
  Modelled from the spec: the value of \<open>default_start_to_close_timeout\<close>, declared in
  the absent base class. The spec says of it only that Preflight "uses a longer step
  timeout than the other three steps", whose timeout is \<open>timedelta(seconds=60)\<close>.
\<close>

definition spec_default_timeout :: "WorkflowInterface \<Rightarrow> bool" where
  "spec_default_timeout self = (60 < default_start_to_close_timeout self)"

text \<open>
  \<open>await asyncio.gather(a, b)\<close> without \<open>return_exceptions\<close>: the pair of results
  when both awaitables succeed, otherwise the first exception raised. When both
  fail, which one is first depends on the schedule: \<open>first_settles_first\<close> says it.
\<close>

definition gather ::
  "bool \<Rightarrow> py_error + json \<Rightarrow> py_error + json \<Rightarrow> py_error + (json \<times> json)" where
  "gather first_settles_first a b =
     (case a of
        Inr x \<Rightarrow> (case b of Inr y \<Rightarrow> Inr (x, y) | Inl e \<Rightarrow> Inl e)
      | Inl e1 \<Rightarrow>
          (case b of Inr y \<Rightarrow> Inl e1 | Inl e2 \<Rightarrow> Inl (if first_settles_first then e1 else e2)))"

text \<open>The four calls of \<open>workflow.execute_activity_method\<close>, as \<open>run\<close> writes them.\<close>

definition run_retry_policy :: RetryPolicy where
  "run_retry_policy = \<lparr>maximum_attempts = 6, backoff_coefficient = 2\<rparr>"

definition preflight_invocation :: "WorkflowInterface \<Rightarrow> json \<Rightarrow> invocation" where
  "preflight_invocation self workflow_args =
     \<lparr>activity = PreflightCheck, arg = workflow_args, retry_policy = run_retry_policy,
      start_to_close_timeout = default_start_to_close_timeout self,
      heartbeat_timeout = default_heartbeat_timeout self\<rparr>"

definition user_profile_invocation :: "WorkflowInterface \<Rightarrow> json \<Rightarrow> invocation" where
  "user_profile_invocation self workflow_args =
     \<lparr>activity = RetrieveUserProfile, arg = workflow_args, retry_policy = run_retry_policy,
      start_to_close_timeout = 60,
      heartbeat_timeout = default_heartbeat_timeout self\<rparr>"

definition repositories_invocation :: "WorkflowInterface \<Rightarrow> json \<Rightarrow> invocation" where
  "repositories_invocation self workflow_args =
     \<lparr>activity = RetrieveRepositories, arg = workflow_args, retry_policy = run_retry_policy,
      start_to_close_timeout = 60,
      heartbeat_timeout = default_heartbeat_timeout self\<rparr>"

definition summary_stats_invocation :: "WorkflowInterface \<Rightarrow> json \<Rightarrow> json \<Rightarrow> invocation" where
  "summary_stats_invocation self user_data repo_data =
     \<lparr>activity = ComputeSummaryStats,
      arg = JObj [(''user_data'', user_data), (''repo_data'', repo_data)],
      retry_policy = run_retry_policy,
      start_to_close_timeout = 60,
      heartbeat_timeout = default_heartbeat_timeout self\<rparr>"

text \<open>
  \<open>GitHubWorkflow.run\<close>. The result is what the coroutine returns (\<open>None\<close>: the
  summary is assigned and not returned) or the exception that ends the run, with the
  invocations made, in the order they were made.
\<close>

definition run ::
  "WorkflowInterface \<Rightarrow> engine \<Rightarrow> bool \<Rightarrow> json \<Rightarrow> (py_error + json) \<times> invocation list" where
  "run self execute_activity_method first_settles_first workflow_config =
     (case execute_activity_method (preflight_invocation self workflow_config) of
        Inl e \<Rightarrow> (Inl e, [preflight_invocation self workflow_config])
      | Inr _ \<Rightarrow>
          (case gather first_settles_first
                  (execute_activity_method (user_profile_invocation self workflow_config))
                  (execute_activity_method (repositories_invocation self workflow_config)) of
             Inl e \<Rightarrow>
               (Inl e,
                [preflight_invocation self workflow_config,
                 user_profile_invocation self workflow_config,
                 repositories_invocation self workflow_config])
           | Inr (user_data, repo_data) \<Rightarrow>
               (case execute_activity_method (summary_stats_invocation self user_data repo_data) of
                  Inl e \<Rightarrow>
                    (Inl e,
                     [preflight_invocation self workflow_config,
                      user_profile_invocation self workflow_config,
                      repositories_invocation self workflow_config,
                      summary_stats_invocation self user_data repo_data])
                | Inr summary_stats \<Rightarrow>
                    (Inr JNull,
                     [preflight_invocation self workflow_config,
                      user_profile_invocation self workflow_config,
                      repositories_invocation self workflow_config,
                      summary_stats_invocation self user_data repo_data]))))"

section \<open>Notions used in the statements\<close>

text \<open>The value under a key of a returned dictionary, if a dictionary was returned.\<close>

definition result_field :: "py_error + json \<Rightarrow> string \<Rightarrow> json option" where
  "result_field r k = (case r of Inr (JObj d) \<Rightarrow> map_of d k | _ \<Rightarrow> None)"

text \<open>The upstream mapping omits the key or sets it to null.\<close>

definition missing_or_null :: "dict \<Rightarrow> string \<Rightarrow> bool" where
  "missing_or_null d k = (map_of d k = None \<or> map_of d k = Some JNull)"

text \<open>The string fields of \<open>UserMetadata\<close> whose placeholder is \<open>N/A\<close>, each with the
  upstream key it is read from; \<open>name\<close>, which also reads \<open>login\<close>, is not among them.\<close>

definition na_fields :: "(string \<times> string) list" where
  "na_fields =
     [(''node_id'', ''node_id''), (''profile_url'', ''html_url''),
      (''avatar_url'', ''avatar_url''), (''type'', ''type''), (''company'', ''company''),
      (''location'', ''location''), (''email'', ''email''), (''blog'', ''blog''),
      (''twitter_username'', ''twitter_username''), (''created_at'', ''created_at''),
      (''followers_url'', ''followers_url''), (''following_url'', ''following_url'')]"

definition int_fields :: "string list" where
  "int_fields = [''followers'', ''following'', ''public_repos'', ''public_gists'']"

text \<open>The value is a dictionary; the value is a list.\<close>


fun is_dict :: "json \<Rightarrow> bool" where
  "is_dict (JObj d) = True"
| "is_dict _ = False"

fun is_list :: "json \<Rightarrow> bool" where
  "is_list (JArr xs) = True"
| "is_list _ = False"

section \<open>Example inputs\<close>

text \<open>An upstream with three pages of 100, 100 and 37 repositories, the repository
  \<open>n\<close> having \<open>n\<close> stars, and every later page empty; and one whose second page
  answers HTTP 500.\<close>


definition example_item :: "nat \<Rightarrow> dict" where
  "example_item n = [(''name'', JStr ''repo''), (''stargazers_count'', JInt (int n))]"

definition example_pages :: "dict list list" where
  "example_pages = [map example_item [0..<100], map example_item [100..<200], map example_item [200..<237]]"

definition example_upstream :: upstream where
  "example_upstream request =
     (if map_of (params request) ''page'' = Some 1 then Inr (JArr (map JObj (map example_item [0..<100])))
      else if map_of (params request) ''page'' = Some 2 then Inr (JArr (map JObj (map example_item [100..<200])))
      else if map_of (params request) ''page'' = Some 3 then Inr (JArr (map JObj (map example_item [200..<237])))
      else Inr (JArr []))"

definition example_upstream_500 :: upstream where
  "example_upstream_500 request =
     (if map_of (params request) ''page'' = Some 1 then Inr (JArr (map JObj (map example_item [0..<100])))
      else Inl (HTTPStatusError 500))"

text \<open>An environment that sets both variables, and an upstream that answers every
  request with one profile.\<close>


definition example_environ :: environ where
  "example_environ = [''GITHUB_USERNAME'' \<mapsto> ''b'', ''GITHUB_PAT'' \<mapsto> ''token'']"

definition example_profile_upstream :: upstream where
  "example_profile_upstream request = Inr (JObj [(''login'', JStr ''b''), (''followers'', JInt 7)])"

text \<open>A workflow instance whose inherited defaults are two hours and five minutes;
  an engine under which every step succeeds, and one under which the retrieval of the
  repositories fails for good.\<close>


definition example_workflow :: WorkflowInterface where
  "example_workflow = \<lparr>default_start_to_close_timeout = 7200, default_heartbeat_timeout = 300\<rparr>"

definition example_engine :: engine where
  "example_engine i =
     (case activity i of
        PreflightCheck \<Rightarrow> Inr JNull
      | RetrieveUserProfile \<Rightarrow> Inr (JObj [(''followers'', JInt 10)])
      | RetrieveRepositories \<Rightarrow> Inr (JArr [JObj [], JObj []])
      | ComputeSummaryStats \<Rightarrow> Inr (JObj [(''total_public_repos'', JInt 2)]))"

definition example_engine_repositories_fail :: engine where
  "example_engine_repositories_fail i =
     (case activity i of
        PreflightCheck \<Rightarrow> Inr JNull
      | RetrieveUserProfile \<Rightarrow> Inr (JObj [(''followers'', JInt 10)])
      | RetrieveRepositories \<Rightarrow> Inl (ActivityError ''retrieve_repositories_activity'')
      | ComputeSummaryStats \<Rightarrow> Inr (JObj [(''total_public_repos'', JInt 2)]))"

section \<open>Python values: facts\<close>


lemma py_get_missing_or_null: "missing_or_null d k \<Longrightarrow> py_get d k = JNull"
  by (auto simp: missing_or_null_def py_get_def)

lemma py_get_default_missing_or_null:
  "missing_or_null d k \<Longrightarrow> \<not> truthy (py_get_default d k (JInt 0))"
  by (auto simp: missing_or_null_def py_get_default_def)

lemma py_get_default_falsy:
  "\<not> truthy (py_get d k) \<Longrightarrow> \<not> truthy (py_get_default d k (JInt 0))"
  by (auto simp: py_get_def py_get_default_def split: option.splits)

lemma py_or_falsy: "\<not> truthy a \<Longrightarrow> py_or a b = b"
  by (simp add: py_or_def)

lemma py_or_truthy: "truthy a \<Longrightarrow> py_or a b = a"
  by (simp add: py_or_def)

lemma py_or_not_null: "b \<noteq> JNull \<Longrightarrow> py_or a b \<noteq> JNull"
  by (cases a) (auto simp: py_or_def)

section \<open>User profile normalization\<close>

text \<open>
  Claim C3, as the code has it. On every dictionary \<open>_normalize_user_json\<close> returns
  a dictionary, none of whose values is null. Where the upstream dictionary omits a
  key or sets it to null, each string field other than \<open>name\<close> is \<open>N/A\<close>, \<open>bio\<close> is
  \<open>No bio provided.\<close>, and each of \<open>followers\<close>, \<open>following\<close>, \<open>public_repos\<close> and
  \<open>public_gists\<close> is 0. The field \<open>name\<close> is different: with \<open>name\<close> omitted or null
  it is the upstream \<open>login\<close> when that is a true value, and \<open>N/A\<close> only otherwise.
\<close>

theorem normalize_user_json_sentinels:
  "(\<exists>out. normalize_user_json (JObj u) = Inr (JObj out) \<and> (\<forall>v \<in> snd ` set out. v \<noteq> JNull)) \<and>
   (\<forall>(k_out, k_in) \<in> set na_fields. missing_or_null u k_in \<longrightarrow>
      result_field (normalize_user_json (JObj u)) k_out = Some (JStr ''N/A'')) \<and>
   (missing_or_null u ''bio'' \<longrightarrow>
      result_field (normalize_user_json (JObj u)) ''bio'' = Some (JStr ''No bio provided.'')) \<and>
   (\<forall>k \<in> set int_fields. missing_or_null u k \<longrightarrow>
      result_field (normalize_user_json (JObj u)) k = Some (JInt 0)) \<and>
   (missing_or_null u ''name'' \<longrightarrow>
      result_field (normalize_user_json (JObj u)) ''name'' =
        Some (if truthy (py_get u ''login'') then py_get u ''login'' else JStr ''N/A''))"
proof (intro conjI)
  show "\<exists>out. normalize_user_json (JObj u) = Inr (JObj out) \<and> (\<forall>v \<in> snd ` set out. v \<noteq> JNull)"
    by (simp add: py_or_not_null)
  show "\<forall>(k_out, k_in) \<in> set na_fields. missing_or_null u k_in \<longrightarrow>
      result_field (normalize_user_json (JObj u)) k_out = Some (JStr ''N/A'')"
    by (simp add: na_fields_def result_field_def py_get_missing_or_null py_or_falsy)
  show "missing_or_null u ''bio'' \<longrightarrow>
      result_field (normalize_user_json (JObj u)) ''bio'' = Some (JStr ''No bio provided.'')"
    by (simp add: result_field_def py_get_missing_or_null py_or_falsy)
  show "\<forall>k \<in> set int_fields. missing_or_null u k \<longrightarrow>
      result_field (normalize_user_json (JObj u)) k = Some (JInt 0)"
    by (simp add: int_fields_def result_field_def py_get_default_missing_or_null py_or_falsy)
  show "missing_or_null u ''name'' \<longrightarrow>
      result_field (normalize_user_json (JObj u)) ''name'' =
        Some (if truthy (py_get u ''login'') then py_get u ''login'' else JStr ''N/A'')"
    by (simp add: result_field_def py_get_missing_or_null py_or_def)
qed

text \<open>C3 at a profile that has a login, a null company and null followers, and
  nothing else.\<close>

theorem normalize_user_json_sentinels_witness:
  "missing_or_null [(''login'', JStr ''octocat''), (''company'', JNull), (''followers'', JNull)] ''company'' \<and>
   missing_or_null [(''login'', JStr ''octocat''), (''company'', JNull), (''followers'', JNull)] ''bio'' \<and>
   missing_or_null [(''login'', JStr ''octocat''), (''company'', JNull), (''followers'', JNull)] ''followers'' \<and>
   missing_or_null [(''login'', JStr ''octocat''), (''company'', JNull), (''followers'', JNull)] ''name'' \<and>
   result_field (normalize_user_json (JObj [(''login'', JStr ''octocat''), (''company'', JNull), (''followers'', JNull)])) ''company'' = Some (JStr ''N/A'') \<and>
   result_field (normalize_user_json (JObj [(''login'', JStr ''octocat''), (''company'', JNull), (''followers'', JNull)])) ''bio'' = Some (JStr ''No bio provided.'') \<and>
   result_field (normalize_user_json (JObj [(''login'', JStr ''octocat''), (''company'', JNull), (''followers'', JNull)])) ''followers'' = Some (JInt 0) \<and>
   result_field (normalize_user_json (JObj [(''login'', JStr ''octocat''), (''company'', JNull), (''followers'', JNull)])) ''name'' = Some (JStr ''octocat'')"
  using normalize_user_json_sentinels [of "[(''login'', JStr ''octocat''), (''company'', JNull), (''followers'', JNull)]"]
  by (simp add: missing_or_null_def na_fields_def int_fields_def py_get_def)

text \<open>C3 as the spec words it fails for \<open>name\<close>: the upstream dictionary omits
  \<open>name\<close>, and the output is the login, not \<open>N/A\<close>.\<close>

theorem normalize_user_json_name_counterexample:
  "missing_or_null [(''login'', JStr ''octocat'')] ''name'' \<and>
   result_field (normalize_user_json (JObj [(''login'', JStr ''octocat'')])) ''name'' = Some (JStr ''octocat'') \<and>
   JStr ''octocat'' \<noteq> JStr ''N/A''"
  by (simp add: missing_or_null_def result_field_def py_get_def py_or_def)

text \<open>
  Claim C9, as the code has it. Every false upstream value, not only a missing or
  null one, is replaced: by \<open>N/A\<close> in the string fields, by \<open>No bio provided.\<close> in
  \<open>bio\<close>, by 0 in the integer fields. When \<open>name\<close> is missing or false and \<open>login\<close> is
  a true value, \<open>name\<close> is that login value; when \<open>login\<close> is missing or false as
  well, \<open>name\<close> is \<open>N/A\<close>.
\<close>

theorem normalize_user_json_falsy:
  "(\<forall>(k_out, k_in) \<in> set na_fields. \<not> truthy (py_get u k_in) \<longrightarrow>
      result_field (normalize_user_json (JObj u)) k_out = Some (JStr ''N/A'')) \<and>
   (\<not> truthy (py_get u ''bio'') \<longrightarrow>
      result_field (normalize_user_json (JObj u)) ''bio'' = Some (JStr ''No bio provided.'')) \<and>
   (\<forall>k \<in> set int_fields. \<not> truthy (py_get u k) \<longrightarrow>
      result_field (normalize_user_json (JObj u)) k = Some (JInt 0)) \<and>
   (\<not> truthy (py_get u ''name'') \<and> truthy (py_get u ''login'') \<longrightarrow>
      result_field (normalize_user_json (JObj u)) ''name'' = Some (py_get u ''login'')) \<and>
   (\<not> truthy (py_get u ''name'') \<and> \<not> truthy (py_get u ''login'') \<longrightarrow>
      result_field (normalize_user_json (JObj u)) ''name'' = Some (JStr ''N/A''))"
proof (intro conjI)
  show "\<forall>(k_out, k_in) \<in> set na_fields. \<not> truthy (py_get u k_in) \<longrightarrow>
      result_field (normalize_user_json (JObj u)) k_out = Some (JStr ''N/A'')"
    by (simp add: na_fields_def result_field_def py_or_falsy)
  show "\<not> truthy (py_get u ''bio'') \<longrightarrow>
      result_field (normalize_user_json (JObj u)) ''bio'' = Some (JStr ''No bio provided.'')"
    by (simp add: result_field_def py_or_falsy)
  show "\<forall>k \<in> set int_fields. \<not> truthy (py_get u k) \<longrightarrow>
      result_field (normalize_user_json (JObj u)) k = Some (JInt 0)"
    by (simp add: int_fields_def result_field_def py_get_default_falsy py_or_falsy)
  show "\<not> truthy (py_get u ''name'') \<and> truthy (py_get u ''login'') \<longrightarrow>
      result_field (normalize_user_json (JObj u)) ''name'' = Some (py_get u ''login'')"
    by (simp add: result_field_def py_or_def)
  show "\<not> truthy (py_get u ''name'') \<and> \<not> truthy (py_get u ''login'') \<longrightarrow>
      result_field (normalize_user_json (JObj u)) ''name'' = Some (JStr ''N/A'')"
    by (simp add: result_field_def py_or_def)
qed

text \<open>C9 at a profile with a login, an empty company, an empty bio and null
  followers.\<close>

theorem normalize_user_json_falsy_witness:
  "\<not> truthy (py_get [(''login'', JStr ''octocat''), (''company'', JStr ''''), (''bio'', JStr ''''), (''followers'', JNull)] ''company'') \<and>
   \<not> truthy (py_get [(''login'', JStr ''octocat''), (''company'', JStr ''''), (''bio'', JStr ''''), (''followers'', JNull)] ''bio'') \<and>
   \<not> truthy (py_get [(''login'', JStr ''octocat''), (''company'', JStr ''''), (''bio'', JStr ''''), (''followers'', JNull)] ''followers'') \<and>
   \<not> truthy (py_get [(''login'', JStr ''octocat''), (''company'', JStr ''''), (''bio'', JStr ''''), (''followers'', JNull)] ''name'') \<and>
   truthy (py_get [(''login'', JStr ''octocat''), (''company'', JStr ''''), (''bio'', JStr ''''), (''followers'', JNull)] ''login'') \<and>
   result_field (normalize_user_json (JObj [(''login'', JStr ''octocat''), (''company'', JStr ''''), (''bio'', JStr ''''), (''followers'', JNull)])) ''company'' = Some (JStr ''N/A'') \<and>
   result_field (normalize_user_json (JObj [(''login'', JStr ''octocat''), (''company'', JStr ''''), (''bio'', JStr ''''), (''followers'', JNull)])) ''bio'' = Some (JStr ''No bio provided.'') \<and>
   result_field (normalize_user_json (JObj [(''login'', JStr ''octocat''), (''company'', JStr ''''), (''bio'', JStr ''''), (''followers'', JNull)])) ''followers'' = Some (JInt 0) \<and>
   result_field (normalize_user_json (JObj [(''login'', JStr ''octocat''), (''company'', JStr ''''), (''bio'', JStr ''''), (''followers'', JNull)])) ''name'' = Some (JStr ''octocat'')"
  using normalize_user_json_falsy [of "[(''login'', JStr ''octocat''), (''company'', JStr ''''), (''bio'', JStr ''''), (''followers'', JNull)]"]
  by (simp add: na_fields_def int_fields_def py_get_def)

text \<open>C9 says that a profile with no name but a login never has \<open>N/A\<close> for \<open>name\<close>.
  It has when the login is the text \<open>N/A\<close>, and when the login is the empty string.\<close>

theorem normalize_user_json_login_counterexample:
  "map_of [(''login'', JStr ''N/A'')] ''name'' = None \<and>
   map_of [(''login'', JStr ''N/A'')] ''login'' = Some (JStr ''N/A'') \<and>
   result_field (normalize_user_json (JObj [(''login'', JStr ''N/A'')])) ''name'' = Some (JStr ''N/A'') \<and>
   map_of [(''login'', JStr '''')] ''name'' = None \<and>
   map_of [(''login'', JStr '''')] ''login'' = Some (JStr '''') \<and>
   result_field (normalize_user_json (JObj [(''login'', JStr '''')])) ''name'' = Some (JStr ''N/A'')"
  by (simp add: result_field_def py_get_def py_or_def)

section \<open>Pagination\<close>

lemma normalize_each_dicts: "normalize_each (map JObj ds) = Inr (map repo_record ds)"
  by (induction ds) simp_all

lemma normalized_page_repos_dicts:
  "normalized_page_repos (JArr (map JObj ds)) = Inr (map repo_record ds)"
  by (simp add: normalized_page_repos_def normalize_each_dicts)

lemma fetch_pages_step:
  assumes "up (repos_request pat username p) = Inr (JArr (map JObj ds))" and "ds \<noteq> []"
  shows "fetch_pages up pat username p acc sent =
         fetch_pages up pat username (p + 1) (acc @ map repo_record ds)
           (sent @ [repos_request pat username p])"
  using assms
  by (subst fetch_pages.simps) (simp add: normalized_page_repos_dicts)

lemma fetch_pages_run:
  assumes "\<forall>i<length pages. up (repos_request pat username (p + int i)) = Inr (JArr (map JObj (pages ! i)))"
    and "\<forall>page\<in>set pages. page \<noteq> []"
  shows "fetch_pages up pat username p acc sent =
         fetch_pages up pat username (p + int (length pages))
           (acc @ concat (map (map repo_record) pages))
           (sent @ map (\<lambda>i. repos_request pat username (p + int i)) [0..<length pages])"
  using assms
proof (induction pages arbitrary: p acc sent)
  case Nil
  then show ?case by simp
next
  case (Cons page pages)
  have first: "up (repos_request pat username p) = Inr (JArr (map JObj page))"
    using Cons.prems(1) by fastforce
  have nonempty: "page \<noteq> []"
    using Cons.prems(2) by simp
  have rest: "\<forall>i<length pages. up (repos_request pat username (p + 1 + int i)) = Inr (JArr (map JObj (pages ! i)))"
  proof (intro allI impI)
    fix i assume "i < length pages"
    then have "up (repos_request pat username (p + int (Suc i))) = Inr (JArr (map JObj ((page # pages) ! Suc i)))"
      using Cons.prems(1) by (metis Suc_less_eq length_Cons)
    then show "up (repos_request pat username (p + 1 + int i)) = Inr (JArr (map JObj (pages ! i)))"
      by (simp add: add.commute add.left_commute)
  qed
  have rest_nonempty: "\<forall>page\<in>set pages. page \<noteq> []"
    using Cons.prems(2) by simp
  have idx: "map (\<lambda>i. repos_request pat username (p + int i)) [0..<length (page # pages)] =
        repos_request pat username p # map (\<lambda>i. repos_request pat username (p + 1 + int i)) [0..<length pages]"
  proof -
    have "[0..<length (page # pages)] = 0 # map Suc [0..<length pages]"
      by (simp add: upt_conv_Cons map_Suc_upt del: upt_Suc)
    then show ?thesis
      by (simp add: comp_def add.commute add.left_commute del: upt_Suc)
  qed
  show ?case
    unfolding fetch_pages_step [where up = up, OF first nonempty]
      Cons.IH [OF rest rest_nonempty] idx
    by (simp add: ac_simps)
qed

lemma fetch_pages_last:
  assumes "up (repos_request pat username p) = Inr body" and "\<not> truthy body"
  shows "fetch_pages up pat username p acc sent = Some (Inr acc, sent @ [repos_request pat username p])"
  using assms by (subst fetch_pages.simps) simp

lemma fetch_pages_error:
  assumes "up (repos_request pat username p) = Inl e"
  shows "fetch_pages up pat username p acc sent = Some (Inl e, sent @ [repos_request pat username p])"
  using assms by (subst fetch_pages.simps) simp

text \<open>The loop has one normal exit: when it returns a list, the answer to the last
  request it sent was an empty body.\<close>

lemma fetch_pages_returns_on_empty:
  assumes "fetch_pages up pat username p acc sent = Some (Inr records, reqs)"
  shows "reqs \<noteq> [] \<and> (\<exists>body. up (last reqs) = Inr body \<and> \<not> truthy body)"
proof -
  have "\<forall>records reqs. y = (Inr records, reqs) \<longrightarrow>
      reqs \<noteq> [] \<and> (\<exists>body. up (last reqs) = Inr body \<and> \<not> truthy body)"
    if "fetch_pages up pat username p acc sent = Some y" for y
    by (rule fetch_pages.raw_induct
        [where P = "\<lambda>up pat username p acc sent y. \<forall>records reqs. y = (Inr records, reqs) \<longrightarrow>
           reqs \<noteq> [] \<and> (\<exists>body. up (last reqs) = Inr body \<and> \<not> truthy body)", OF _ that])
      (auto split: sum.splits if_splits)
  then show ?thesis using assms by blast
qed

text \<open>Against an upstream none of whose pages is empty the loop does not return.\<close>

lemma fetch_pages_never_empty:
  assumes "\<forall>q\<ge>p. \<exists>ds. ds \<noteq> [] \<and> up (repos_request pat username q) = Inr (JArr (map JObj ds))"
  shows "fetch_pages up pat username p acc sent = None"
proof (rule ccontr)
  assume "fetch_pages up pat username p acc sent \<noteq> None"
  then obtain y where y: "fetch_pages up pat username p acc sent = Some y" by auto
  have "\<not> (\<forall>q\<ge>p. \<exists>ds. ds \<noteq> [] \<and> up (repos_request pat username q) = Inr (JArr (map JObj ds)))"
  proof (rule fetch_pages.raw_induct
        [where P = "\<lambda>up pat username p acc sent y.
           \<not> (\<forall>q\<ge>p. \<exists>ds. ds \<noteq> [] \<and> up (repos_request pat username q) = Inr (JArr (map JObj ds)))",
         OF _ y])
    fix f up pat username page_num all_repos sent y
    assume IH: "\<And>up pat username page_num all_repos sent y.
        f up pat username page_num all_repos sent = Some y \<Longrightarrow>
        \<not> (\<forall>q\<ge>page_num. \<exists>ds. ds \<noteq> [] \<and> up (repos_request pat username q) = Inr (JArr (map JObj ds)))"
      and body: "(case up (repos_request pat username page_num) of
        Inl e \<Rightarrow> Some (Inl e, sent @ [repos_request pat username page_num])
      | Inr page_data \<Rightarrow>
          if \<not> truthy page_data
          then Some (Inr all_repos, sent @ [repos_request pat username page_num])
          else (case normalized_page_repos page_data of
                  Inl e \<Rightarrow> Some (Inl e, sent @ [repos_request pat username page_num])
                | Inr normalized \<Rightarrow>
                    f up pat username (page_num + 1) (all_repos @ normalized)
                      (sent @ [repos_request pat username page_num]))) = Some y"
    show "\<not> (\<forall>q\<ge>page_num. \<exists>ds. ds \<noteq> [] \<and> up (repos_request pat username q) = Inr (JArr (map JObj ds)))"
    proof
      assume all: "\<forall>q\<ge>page_num. \<exists>ds. ds \<noteq> [] \<and> up (repos_request pat username q) = Inr (JArr (map JObj ds))"
      then obtain ds where ds: "ds \<noteq> []" "up (repos_request pat username page_num) = Inr (JArr (map JObj ds))"
        by blast
      have norm: "normalized_page_repos (JArr (map JObj ds)) = Inr (map repo_record ds)"
        by (rule normalized_page_repos_dicts)
      have "f up pat username (page_num + 1) (all_repos @ map repo_record ds)
              (sent @ [repos_request pat username page_num]) = Some y"
        using body ds by (simp add: norm)
      from IH [OF this] obtain q where "q \<ge> page_num + 1"
        "\<not> (\<exists>ds. ds \<noteq> [] \<and> up (repos_request pat username q) = Inr (JArr (map JObj ds)))"
        by blast
      moreover have "q \<ge> page_num" using calculation(1) by simp
      ultimately show False using all by blast
    qed
  qed
  then show False using assms by blast
qed

lemma requests_upto:
  "map (\<lambda>i. f (1 + int i)) [0..<n] @ [f (1 + int n)] = map f [1..int n + 1]"
proof (induction n)
  case 0
  then show ?case by (simp add: upto.simps)
next
  case (Suc n)
  have e: "[1..int (Suc n) + 1] = [1..int n + 1] @ [1 + int (Suc n)]"
    by (subst upto_rec2) (simp_all add: add.commute)
  show ?case unfolding e using Suc by simp
qed

text \<open>
  Claim C1. Let the upstream answer the pages 1 to \<open>n\<close> of a user's repositories
  with non-empty lists of repository objects, and page \<open>n + 1\<close> with an empty body.
  Then \<open>fetch_all_repository_data\<close> returns; it has sent exactly the requests for the
  pages 1, 2, ..., \<open>n + 1\<close>, in this order, each with \<open>per_page\<close> 100; and it returns
  the normalized records of the pages 1 to \<open>n\<close>, concatenated in page order. With
  pages of 100, 100 and 37 items these are 237 records and 4 requests.
\<close>

theorem fetch_all_repository_data_pages:
  assumes "\<forall>i<length pages. up (repos_request pat username (1 + int i)) = Inr (JArr (map JObj (pages ! i)))"
    and "\<forall>page\<in>set pages. page \<noteq> []"
    and "up (repos_request pat username (1 + int (length pages))) = Inr last_body"
    and "\<not> truthy last_body"
  shows "fetch_all_repository_data up pat username =
           Some (Inr (concat (map (map repo_record) pages)),
                 map (repos_request pat username) [1..int (length pages) + 1]) \<and>
         map params (map (repos_request pat username) [1..int (length pages) + 1]) =
           map (\<lambda>page_num. [(''page'', page_num), (''per_page'', 100)]) [1..int (length pages) + 1] \<and>
         (map length pages = [100, 100, 37] \<longrightarrow>
            length (concat (map (map repo_record) pages)) = 237 \<and>
            length (map (repos_request pat username) [1..int (length pages) + 1]) = 4)"
proof (intro conjI impI)
  show "fetch_all_repository_data up pat username =
           Some (Inr (concat (map (map repo_record) pages)),
                 map (repos_request pat username) [1..int (length pages) + 1])"
    unfolding fetch_all_repository_data_def fetch_pages_run [where up = up, OF assms(1,2)]
      fetch_pages_last [where up = up, OF assms(3,4)]
    by (simp add: requests_upto)
  show "map params (map (repos_request pat username) [1..int (length pages) + 1]) =
           map (\<lambda>page_num. [(''page'', page_num), (''per_page'', 100)]) [1..int (length pages) + 1]"
    by (simp add: repos_request_def)
next
  assume sizes: "map length pages = [100, 100, 37]"
  have "length (concat (map (map repo_record) pages)) = sum_list (map length pages)"
    by (simp add: length_concat comp_def)
  then show "length (concat (map (map repo_record) pages)) = 237"
    by (simp add: sizes)
  have "length pages = 3"
    using sizes by (metis length_map length_Cons list.size(3) numeral_3_eq_3)
  then show "length (map (repos_request pat username) [1..int (length pages) + 1]) = 4"
    by simp
qed

text \<open>C1 at the example upstream: pages of 100, 100 and 37 repositories, then an
  empty page.\<close>

theorem fetch_all_repository_data_pages_witness:
  "example_upstream (repos_request (JStr ''token'') (JStr ''octocat'') 1) = Inr (JArr (map JObj (example_pages ! 0))) \<and>
   example_upstream (repos_request (JStr ''token'') (JStr ''octocat'') 2) = Inr (JArr (map JObj (example_pages ! 1))) \<and>
   example_upstream (repos_request (JStr ''token'') (JStr ''octocat'') 3) = Inr (JArr (map JObj (example_pages ! 2))) \<and>
   example_upstream (repos_request (JStr ''token'') (JStr ''octocat'') 4) = Inr (JArr []) \<and>
   map length example_pages = [100, 100, 37] \<and>
   fetch_all_repository_data example_upstream (JStr ''token'') (JStr ''octocat'') =
     Some (Inr (map repo_record (map example_item [0..<100]) @
                map repo_record (map example_item [100..<200]) @
                map repo_record (map example_item [200..<237])),
           [repos_request (JStr ''token'') (JStr ''octocat'') 1,
            repos_request (JStr ''token'') (JStr ''octocat'') 2,
            repos_request (JStr ''token'') (JStr ''octocat'') 3,
            repos_request (JStr ''token'') (JStr ''octocat'') 4]) \<and>
   length (map repo_record (map example_item [0..<100]) @
           map repo_record (map example_item [100..<200]) @
           map repo_record (map example_item [200..<237])) = 237"
proof -
  have p1: "example_upstream (repos_request (JStr ''token'') (JStr ''octocat'') 1) = Inr (JArr (map JObj (example_pages ! 0)))"
    by (simp add: example_upstream_def repos_request_def example_pages_def del: upt_rec_numeral)
  have p2: "example_upstream (repos_request (JStr ''token'') (JStr ''octocat'') 2) = Inr (JArr (map JObj (example_pages ! 1)))"
    by (simp add: example_upstream_def repos_request_def example_pages_def del: upt_rec_numeral)
  have p3: "example_upstream (repos_request (JStr ''token'') (JStr ''octocat'') 3) = Inr (JArr (map JObj (example_pages ! 2)))"
    by (simp add: example_upstream_def repos_request_def example_pages_def del: upt_rec_numeral)
  have p4: "example_upstream (repos_request (JStr ''token'') (JStr ''octocat'') 4) = Inr (JArr [])"
    by (simp add: example_upstream_def repos_request_def)
  have len: "length example_pages = 3"
    by (simp add: example_pages_def)
  have h1: "\<forall>i<length example_pages.
      example_upstream (repos_request (JStr ''token'') (JStr ''octocat'') (1 + int i)) =
        Inr (JArr (map JObj (example_pages ! i)))"
    using p1 p2 p3 by (simp add: len numeral_3_eq_3 numeral_2_eq_2 less_Suc_eq)
  have h2: "\<forall>page\<in>set example_pages. page \<noteq> []"
    by (simp add: example_pages_def del: upt_rec_numeral)
  have h3: "example_upstream (repos_request (JStr ''token'') (JStr ''octocat'') (1 + int (length example_pages))) = Inr (JArr [])"
    using p4 by (simp add: len)
  have h4: "\<not> truthy (JArr [])"
    by simp
  have sizes: "map length example_pages = [100, 100, 37]"
    by (simp add: example_pages_def del: upt_rec_numeral)
  have upto4: "[1..int (length example_pages) + 1] = [1, 2, 3, 4]"
    by (simp add: len upto_rec1)
  from fetch_all_repository_data_pages [where up = example_upstream, OF h1 h2 h3 h4] p1 p2 p3 p4 sizes
  show ?thesis
    unfolding upto4 by (simp add: example_pages_def del: upt_rec_numeral)
qed

text \<open>
  Claim C2. Let the pages 1 to \<open>n\<close> be answered with non-empty lists of repository
  objects, and let the request for page \<open>n + 1\<close> fail with an exception \<open>e\<close>, a
  transport error or an HTTP error. Then, whatever \<open>n\<close> is, the fetch ends with \<open>e\<close>
  after the request for page \<open>n + 1\<close>: the caller gets the exception and no list, so
  none of the records of the pages 1 to \<open>n\<close>.
\<close>

theorem fetch_all_repository_data_abort:
  assumes "\<forall>i<length pages. up (repos_request pat username (1 + int i)) = Inr (JArr (map JObj (pages ! i)))"
    and "\<forall>page\<in>set pages. page \<noteq> []"
    and "up (repos_request pat username (1 + int (length pages))) = Inl e"
  shows "fetch_all_repository_data up pat username =
           Some (Inl e, map (repos_request pat username) [1..int (length pages) + 1])"
  unfolding fetch_all_repository_data_def fetch_pages_run [where up = up, OF assms(1,2)]
    fetch_pages_error [where up = up, OF assms(3)]
  by (simp add: requests_upto)

text \<open>C2 at the upstream whose first page has 100 repositories and whose second
  page answers HTTP 500.\<close>

theorem fetch_all_repository_data_abort_witness:
  "example_upstream_500 (repos_request (JStr ''token'') (JStr ''octocat'') 1) =
     Inr (JArr (map JObj (map example_item [0..<100]))) \<and>
   map example_item [0..<100] \<noteq> [] \<and>
   example_upstream_500 (repos_request (JStr ''token'') (JStr ''octocat'') 2) = Inl (HTTPStatusError 500) \<and>
   fetch_all_repository_data example_upstream_500 (JStr ''token'') (JStr ''octocat'') =
     Some (Inl (HTTPStatusError 500),
           [repos_request (JStr ''token'') (JStr ''octocat'') 1,
            repos_request (JStr ''token'') (JStr ''octocat'') 2])"
proof -
  have p1: "example_upstream_500 (repos_request (JStr ''token'') (JStr ''octocat'') 1) =
     Inr (JArr (map JObj (map example_item [0..<100])))"
    by (simp add: example_upstream_500_def repos_request_def del: upt_rec_numeral)
  have p2: "example_upstream_500 (repos_request (JStr ''token'') (JStr ''octocat'') 2) = Inl (HTTPStatusError 500)"
    by (simp add: example_upstream_500_def repos_request_def)
  have h1: "\<forall>i<length [map example_item [0..<100]].
      example_upstream_500 (repos_request (JStr ''token'') (JStr ''octocat'') (1 + int i)) =
        Inr (JArr (map JObj ([map example_item [0..<100]] ! i)))"
    using p1 by (simp del: upt_rec_numeral)
  have h2: "\<forall>page\<in>set [map example_item [0..<100]]. page \<noteq> []"
    by (simp del: upt_rec_numeral)
  have h3: "example_upstream_500 (repos_request (JStr ''token'') (JStr ''octocat'')
      (1 + int (length [map example_item [0..<100]]))) = Inl (HTTPStatusError 500)"
    using p2 by simp
  have upto2: "[1..int (length [map example_item [0..<100]]) + 1] = [1, 2]"
    by (simp add: upto_rec1)
  from fetch_all_repository_data_abort [where up = example_upstream_500, OF h1 h2 h3] p1 p2
  show ?thesis
    unfolding upto2 by (simp del: upt_rec_numeral)
qed

section \<open>Aggregation\<close>

lemma py_or_int: "py_or (JInt n) (JInt 0) = JInt n"
  by (simp add: py_or_def)

text \<open>
  Claim C4. For a bundle holding a profile and a list of repositories, whatever files
  exist, \<open>compute_summary_stats_activity\<close> returns the dictionary whose
  \<open>total_public_repos\<close> is the length of the list, and whose \<open>total_followers\<close>,
  \<open>total_following\<close> and \<open>total_public_gists\<close> are the profile's integers
  \<open>followers\<close>, \<open>following\<close> and \<open>public_gists\<close>. Neither the elements of the list nor
  the profile's own \<open>public_repos\<close> have any part in the result.
\<close>

theorem compute_summary_stats_aggregate:
  assumes "map_of raw_data ''user_data'' = Some (JObj profile)"
    and "map_of raw_data ''repo_data'' = Some (JArr repos)"
    and "map_of profile ''followers'' = Some (JInt followers)"
    and "map_of profile ''following'' = Some (JInt following)"
    and "map_of profile ''public_gists'' = Some (JInt public_gists)"
  shows "fst (compute_summary_stats_activity (JObj raw_data) fs) =
           Inr (JObj [(''total_public_repos'', JInt (int (length repos))),
                      (''total_followers'', JInt followers),
                      (''total_following'', JInt following),
                      (''total_public_gists'', JInt public_gists)])"
  using assms
  by (simp add: compute_summary_stats_activity_def py_get_default_def py_or_int)

text \<open>C4 at the profile with 10 followers, 3 following, 2 gists that reports 99
  public repositories, and a list of three unlike elements.\<close>

theorem compute_summary_stats_aggregate_witness:
  "fst (compute_summary_stats_activity
          (JObj [(''user_data'', JObj [(''followers'', JInt 10), (''following'', JInt 3),
                                       (''public_gists'', JInt 2), (''public_repos'', JInt 99)]),
                 (''repo_data'', JArr [JObj [(''name'', JStr ''r1'')], JObj [], JNull])])
          Map.empty) =
     Inr (JObj [(''total_public_repos'', JInt 3), (''total_followers'', JInt 10),
                (''total_following'', JInt 3), (''total_public_gists'', JInt 2)])"
  using compute_summary_stats_aggregate [of "[(''user_data'', JObj [(''followers'', JInt 10), (''following'', JInt 3),
                                       (''public_gists'', JInt 2), (''public_repos'', JInt 99)]),
                 (''repo_data'', JArr [JObj [(''name'', JStr ''r1'')], JObj [], JNull])]"
               "[(''followers'', JInt 10), (''following'', JInt 3),
                 (''public_gists'', JInt 2), (''public_repos'', JInt 99)]"
               "[JObj [(''name'', JStr ''r1'')], JObj [], JNull]" 10 3 2 Map.empty]
  by simp

text \<open>
  Claim C10, as the code has it. Let \<open>user_data\<close>, if the bundle has the key, be a
  dictionary, and \<open>repo_data\<close>, if the bundle has the key, be a list. Then the
  computation returns a dictionary; without the key \<open>user_data\<close> the totals of
  followers, following and gists are 0; without the key \<open>repo_data\<close> the total of
  public repositories is 0.
\<close>

theorem compute_summary_stats_partial:
  assumes "case map_of raw_data ''user_data'' of None \<Rightarrow> True | Some v \<Rightarrow> is_dict v"
    and "case map_of raw_data ''repo_data'' of None \<Rightarrow> True | Some v \<Rightarrow> is_list v"
  shows "(\<exists>stats. fst (compute_summary_stats_activity (JObj raw_data) fs) = Inr (JObj stats)) \<and>
         (map_of raw_data ''user_data'' = None \<longrightarrow>
            result_field (fst (compute_summary_stats_activity (JObj raw_data) fs)) ''total_followers'' = Some (JInt 0) \<and>
            result_field (fst (compute_summary_stats_activity (JObj raw_data) fs)) ''total_following'' = Some (JInt 0) \<and>
            result_field (fst (compute_summary_stats_activity (JObj raw_data) fs)) ''total_public_gists'' = Some (JInt 0)) \<and>
         (map_of raw_data ''repo_data'' = None \<longrightarrow>
            result_field (fst (compute_summary_stats_activity (JObj raw_data) fs)) ''total_public_repos'' = Some (JInt 0))"
proof -
  obtain profile where p: "py_get_default raw_data ''user_data'' (JObj []) = JObj profile"
    and p0: "map_of raw_data ''user_data'' = None \<Longrightarrow> profile = []"
    using assms(1) by (cases "map_of raw_data ''user_data''"; cases "the (map_of raw_data ''user_data'')")
      (auto simp: py_get_default_def)
  obtain repos where r: "py_get_default raw_data ''repo_data'' (JArr []) = JArr repos"
    and r0: "map_of raw_data ''repo_data'' = None \<Longrightarrow> repos = []"
    using assms(2) by (cases "map_of raw_data ''repo_data''"; cases "the (map_of raw_data ''repo_data'')")
      (auto simp: py_get_default_def)
  have res: "fst (compute_summary_stats_activity (JObj raw_data) fs) =
      Inr (JObj [(''total_public_repos'', JInt (int (length repos))),
                 (''total_followers'', py_or (py_get_default profile ''followers'' (JInt 0)) (JInt 0)),
                 (''total_following'', py_or (py_get_default profile ''following'' (JInt 0)) (JInt 0)),
                 (''total_public_gists'', py_or (py_get_default profile ''public_gists'' (JInt 0)) (JInt 0))])"
    by (simp add: compute_summary_stats_activity_def p r)
  show ?thesis
    unfolding res using p0 r0
    by (simp add: result_field_def py_get_default_def py_or_int)
qed

text \<open>C10 at the empty bundle.\<close>

theorem compute_summary_stats_partial_witness:
  "fst (compute_summary_stats_activity (JObj []) Map.empty) =
     Inr (JObj [(''total_public_repos'', JInt 0), (''total_followers'', JInt 0),
                (''total_following'', JInt 0), (''total_public_gists'', JInt 0)]) \<and>
   result_field (fst (compute_summary_stats_activity (JObj []) Map.empty)) ''total_followers'' = Some (JInt 0) \<and>
   result_field (fst (compute_summary_stats_activity (JObj []) Map.empty)) ''total_following'' = Some (JInt 0) \<and>
   result_field (fst (compute_summary_stats_activity (JObj []) Map.empty)) ''total_public_gists'' = Some (JInt 0) \<and>
   result_field (fst (compute_summary_stats_activity (JObj []) Map.empty)) ''total_public_repos'' = Some (JInt 0)"
  using compute_summary_stats_partial [of "[]" Map.empty]
  by (simp add: compute_summary_stats_activity_def py_get_default_def py_or_def)

text \<open>C10 says that the computation never raises, for every input mapping. On the
  mapping whose \<open>user_data\<close> is null, \<open>user_metadata.get\<close> raises \<open>AttributeError\<close>.\<close>

theorem compute_summary_stats_null_counterexample:
  "fst (compute_summary_stats_activity (JObj [(''user_data'', JNull), (''repo_data'', JArr [])]) Map.empty) =
     Inl AttributeError"
  by (simp add: compute_summary_stats_activity_def py_get_default_def)

section \<open>Credentials and preflight\<close>

lemma args_get_dict: "args_get (JObj cfg) k = Inr (py_get cfg k)"
  by (cases cfg) (simp_all add: args_get_def py_or_def py_get_def)

lemma args_get_none: "args_get JNull k = Inr JNull"
  by (simp add: args_get_def)

lemma py_get_present: "map_of d k = Some v \<Longrightarrow> py_get d k = v"
  by (simp add: py_get_def)

text \<open>
  Claim C6. A value counts as present where the code's test \<open>if not username\<close> lets it
  stand: it is a true value, neither \<open>None\<close> nor empty. For every configuration
  dictionary and every environment, a username (a token) present in the configuration
  is the resolved one, whatever the environment holds; where the configuration has
  none, the resolved one is the environment's \<open>GITHUB_USERNAME\<close> (\<open>GITHUB_PAT\<close>); and
  with no configuration at all both come from the environment. The environment is an
  argument of each call: nothing is kept from an earlier one.
\<close>

theorem resolve_credentials_precedence:
  "(\<exists>username pat.
      resolve_credentials (JObj cfg) env = Inr (username, pat) \<and>
      (\<forall>v. map_of cfg ''username'' = Some v \<and> truthy v \<longrightarrow> username = v) \<and>
      (\<forall>v. map_of cfg ''pat'' = Some v \<and> truthy v \<longrightarrow> pat = v) \<and>
      (\<not> truthy (py_get cfg ''username'') \<longrightarrow> username = getenv env ''GITHUB_USERNAME'') \<and>
      (\<not> truthy (py_get cfg ''pat'') \<longrightarrow> pat = getenv env ''GITHUB_PAT'')) \<and>
   resolve_credentials JNull env = Inr (getenv env ''GITHUB_USERNAME'', getenv env ''GITHUB_PAT'')"
proof (intro conjI)
  have "resolve_credentials (JObj cfg) env =
      Inr (if \<not> truthy (py_get cfg ''username'') then getenv env ''GITHUB_USERNAME''
           else py_get cfg ''username'',
           if \<not> truthy (py_get cfg ''pat'') then getenv env ''GITHUB_PAT''
           else py_get cfg ''pat'')"
    by (simp add: resolve_credentials_def args_get_dict)
  then show "\<exists>username pat.
      resolve_credentials (JObj cfg) env = Inr (username, pat) \<and>
      (\<forall>v. map_of cfg ''username'' = Some v \<and> truthy v \<longrightarrow> username = v) \<and>
      (\<forall>v. map_of cfg ''pat'' = Some v \<and> truthy v \<longrightarrow> pat = v) \<and>
      (\<not> truthy (py_get cfg ''username'') \<longrightarrow> username = getenv env ''GITHUB_USERNAME'') \<and>
      (\<not> truthy (py_get cfg ''pat'') \<longrightarrow> pat = getenv env ''GITHUB_PAT'')"
    by (auto simp: py_get_present)
  show "resolve_credentials JNull env = Inr (getenv env ''GITHUB_USERNAME'', getenv env ''GITHUB_PAT'')"
    by (simp add: resolve_credentials_def args_get_none)
qed

text \<open>C6 at the configuration \<open>{username: a}\<close> with \<open>GITHUB_USERNAME=b\<close> and a token in
  the environment.\<close>

theorem resolve_credentials_precedence_witness:
  "map_of [(''username'', JStr ''a'')] ''username'' = Some (JStr ''a'') \<and> truthy (JStr ''a'') \<and>
   \<not> truthy (py_get [(''username'', JStr ''a'')] ''pat'') \<and>
   getenv example_environ ''GITHUB_USERNAME'' = JStr ''b'' \<and>
   resolve_credentials (JObj [(''username'', JStr ''a'')]) example_environ = Inr (JStr ''a'', JStr ''token'') \<and>
   resolve_credentials JNull example_environ = Inr (JStr ''b'', JStr ''token'')"
  using resolve_credentials_precedence [of "[(''username'', JStr ''a'')]" example_environ]
  by (auto simp: py_get_def getenv_def example_environ_def)

text \<open>
  Claim C5. Let the credentials resolve. If the token is absent, or the token is
  present and the username absent, \<open>preflight_check\<close> raises \<open>ValueError\<close> (the error
  that the spec calls \<open>ConfigurationError\<close>) and sends no request. If both are present
  it sends exactly one request, the one for the user's profile; if that fetch fails
  its exception is raised, and if it returns a profile, whatever the profile is,
  \<open>preflight_check\<close> returns \<open>None\<close>.
\<close>

theorem preflight_check_credentials:
  assumes "resolve_credentials workflow_args env = Inr (username, pat)"
  shows "(\<not> truthy pat \<longrightarrow>
            preflight_check up env workflow_args =
              (Inl (ValueError ''Personal Access Token (PAT) is missing.''), [])) \<and>
         (truthy pat \<and> \<not> truthy username \<longrightarrow>
            preflight_check up env workflow_args =
              (Inl (ValueError ''GitHub username is missing.''), [])) \<and>
         (truthy pat \<and> truthy username \<longrightarrow>
            snd (preflight_check up env workflow_args) = [user_request pat username] \<and>
            (\<forall>profile. fst (fetch_user_profile_data up pat username) = Inr profile \<longrightarrow>
               fst (preflight_check up env workflow_args) = Inr JNull) \<and>
            (\<forall>e. fst (fetch_user_profile_data up pat username) = Inl e \<longrightarrow>
               fst (preflight_check up env workflow_args) = Inl e))"
proof (intro conjI impI)
  assume "\<not> truthy pat"
  then show "preflight_check up env workflow_args =
      (Inl (ValueError ''Personal Access Token (PAT) is missing.''), [])"
    by (simp add: preflight_check_def assms)
next
  assume "truthy pat \<and> \<not> truthy username"
  then show "preflight_check up env workflow_args =
      (Inl (ValueError ''GitHub username is missing.''), [])"
    by (simp add: preflight_check_def assms)
next
  assume ok: "truthy pat \<and> truthy username"
  obtain r sent where fetched: "fetch_user_profile_data up pat username = (r, sent)"
    by (cases "fetch_user_profile_data up pat username")
  have sent: "sent = [user_request pat username]"
    using fetched by (auto simp: fetch_user_profile_data_def split: sum.splits)
  have pre: "preflight_check up env workflow_args =
      (case r of Inl e \<Rightarrow> (Inl e, sent) | Inr user_metadata \<Rightarrow> (Inr JNull, sent))"
    using ok by (simp add: preflight_check_def assms fetched split: sum.splits)
  show "snd (preflight_check up env workflow_args) = [user_request pat username]"
    unfolding pre by (simp add: sent split: sum.splits)
  show "\<forall>profile. fst (fetch_user_profile_data up pat username) = Inr profile \<longrightarrow>
      fst (preflight_check up env workflow_args) = Inr JNull"
    unfolding pre fetched by simp
  show "\<forall>e. fst (fetch_user_profile_data up pat username) = Inl e \<longrightarrow>
      fst (preflight_check up env workflow_args) = Inl e"
    unfolding pre fetched by simp
qed

text \<open>C5 with no credentials at all, with a token only, and with both.\<close>

theorem preflight_check_credentials_witness:
  "resolve_credentials JNull Map.empty = Inr (JNull, JNull) \<and> \<not> truthy JNull \<and>
   preflight_check example_profile_upstream Map.empty JNull =
     (Inl (ValueError ''Personal Access Token (PAT) is missing.''), []) \<and>
   resolve_credentials (JObj [(''pat'', JStr ''token'')]) Map.empty = Inr (JNull, JStr ''token'') \<and>
   preflight_check example_profile_upstream Map.empty (JObj [(''pat'', JStr ''token'')]) =
     (Inl (ValueError ''GitHub username is missing.''), []) \<and>
   resolve_credentials JNull example_environ = Inr (JStr ''b'', JStr ''token'') \<and>
   truthy (JStr ''b'') \<and> truthy (JStr ''token'') \<and>
   preflight_check example_profile_upstream example_environ JNull =
     (Inr JNull, [user_request (JStr ''token'') (JStr ''b'')])"
proof -
  have r1: "resolve_credentials JNull Map.empty = Inr (JNull, JNull)"
    by (simp add: resolve_credentials_def args_get_def getenv_def)
  have r2: "resolve_credentials (JObj [(''pat'', JStr ''token'')]) Map.empty = Inr (JNull, JStr ''token'')"
    by (simp add: resolve_credentials_def args_get_def getenv_def py_or_def py_get_def)
  have r3: "resolve_credentials JNull example_environ = Inr (JStr ''b'', JStr ''token'')"
    by (simp add: resolve_credentials_def args_get_def getenv_def example_environ_def)
  have f: "\<exists>profile. fst (fetch_user_profile_data example_profile_upstream (JStr ''token'') (JStr ''b'')) = Inr profile"
    by (simp add: fetch_user_profile_data_def example_profile_upstream_def)
  have a: "preflight_check example_profile_upstream Map.empty JNull =
     (Inl (ValueError ''Personal Access Token (PAT) is missing.''), [])"
    using preflight_check_credentials [OF r1, of example_profile_upstream] by simp
  have b: "preflight_check example_profile_upstream Map.empty (JObj [(''pat'', JStr ''token'')]) =
     (Inl (ValueError ''GitHub username is missing.''), [])"
    using preflight_check_credentials [OF r2, of example_profile_upstream] by simp
  have ok: "truthy (JStr ''token'') \<and> truthy (JStr ''b'')"
    by simp
  have c1: "snd (preflight_check example_profile_upstream example_environ JNull) =
      [user_request (JStr ''token'') (JStr ''b'')]"
    using preflight_check_credentials [OF r3, of example_profile_upstream] ok by blast
  have c2: "fst (preflight_check example_profile_upstream example_environ JNull) = Inr JNull"
    using preflight_check_credentials [OF r3, of example_profile_upstream] ok f by blast
  have c: "preflight_check example_profile_upstream example_environ JNull =
     (Inr JNull, [user_request (JStr ''token'') (JStr ''b'')])"
    using c1 c2 by (simp add: prod_eq_iff)
  show ?thesis
    using r1 r2 r3 a b c by simp
qed

section \<open>Orchestration\<close>

lemma gather_Inr:
  "gather b x y = Inr (u, r) \<longleftrightarrow> x = Inr u \<and> y = Inr r"
  by (auto simp: gather_def split: sum.splits)

lemma gather_Inl:
  "(\<exists>e. gather b x y = Inl e) \<longleftrightarrow> (\<exists>e. x = Inl e) \<or> (\<exists>e. y = Inl e)"
  by (auto simp: gather_def split: sum.splits)

lemma activity_invocations [simp]:
  "activity (preflight_invocation self cfg) = PreflightCheck"
  "activity (user_profile_invocation self cfg) = RetrieveUserProfile"
  "activity (repositories_invocation self cfg) = RetrieveRepositories"
  "activity (summary_stats_invocation self u r) = ComputeSummaryStats"
  by (simp_all add: preflight_invocation_def user_profile_invocation_def
      repositories_invocation_def summary_stats_invocation_def)

lemma run_cases:
  obtains (preflight_failed) e where
      "execute (preflight_invocation self cfg) = Inl e"
      "run self execute b cfg = (Inl e, [preflight_invocation self cfg])"
  | (fetch_failed) e where
      "gather b (execute (user_profile_invocation self cfg))
                (execute (repositories_invocation self cfg)) = Inl e"
      "run self execute b cfg =
         (Inl e, [preflight_invocation self cfg, user_profile_invocation self cfg,
                  repositories_invocation self cfg])"
  | (aggregated) u r res where
      "execute (user_profile_invocation self cfg) = Inr u"
      "execute (repositories_invocation self cfg) = Inr r"
      "run self execute b cfg =
         (res, [preflight_invocation self cfg, user_profile_invocation self cfg,
                repositories_invocation self cfg, summary_stats_invocation self u r])"
proof (cases "execute (preflight_invocation self cfg)")
  case (Inl e)
  then show ?thesis using preflight_failed by (simp add: run_def)
next
  case pre: (Inr a)
  show ?thesis
  proof (cases "gather b (execute (user_profile_invocation self cfg))
                  (execute (repositories_invocation self cfg))")
    case (Inl e)
    then show ?thesis using fetch_failed pre by (simp add: run_def)
  next
    case (Inr p)
    obtain u r where p: "p = (u, r)" by (cases p)
    have "execute (user_profile_invocation self cfg) = Inr u"
      "execute (repositories_invocation self cfg) = Inr r"
      using Inr unfolding p gather_Inr by simp_all
    moreover have "run self execute b cfg =
         (fst (run self execute b cfg), [preflight_invocation self cfg, user_profile_invocation self cfg,
                repositories_invocation self cfg, summary_stats_invocation self u r])"
      using Inr pre unfolding p by (simp add: run_def split: sum.splits)
    ultimately show ?thesis using aggregated by blast
  qed
qed

text \<open>
  Claim C7. In every run, for every engine and schedule: if the aggregation step is
  invoked at all, then the retrieval of the profile and the retrieval of the
  repositories have both returned, the aggregation is invoked after both, and its
  input is the bundle of their two results. If either retrieval ends with an exception
  the run ends with an exception and the aggregation step is not invoked; in
  particular, when the preflight and the profile retrieval succeed and the
  repositories retrieval fails with \<open>e\<close>, the run fails with \<open>e\<close> after the three
  invocations.
\<close>

theorem run_barrier:
  "((\<exists>i \<in> set (snd (run self execute b cfg)). activity i = ComputeSummaryStats) \<longrightarrow>
      (\<exists>u r. execute (user_profile_invocation self cfg) = Inr u \<and>
             execute (repositories_invocation self cfg) = Inr r \<and>
             snd (run self execute b cfg) =
               [preflight_invocation self cfg, user_profile_invocation self cfg,
                repositories_invocation self cfg, summary_stats_invocation self u r])) \<and>
   ((\<exists>e. execute (user_profile_invocation self cfg) = Inl e) \<or>
    (\<exists>e. execute (repositories_invocation self cfg) = Inl e) \<longrightarrow>
      (\<exists>e. fst (run self execute b cfg) = Inl e) \<and>
      (\<forall>i \<in> set (snd (run self execute b cfg)). activity i \<noteq> ComputeSummaryStats)) \<and>
   (\<forall>p u e. execute (preflight_invocation self cfg) = Inr p \<and>
            execute (user_profile_invocation self cfg) = Inr u \<and>
            execute (repositories_invocation self cfg) = Inl e \<longrightarrow>
      run self execute b cfg =
        (Inl e, [preflight_invocation self cfg, user_profile_invocation self cfg,
                 repositories_invocation self cfg]))"
proof (cases rule: run_cases [of execute self cfg b])
  case (preflight_failed e)
  then show ?thesis by simp
next
  case (fetch_failed e)
  then show ?thesis by (auto simp: gather_def)
next
  case (aggregated u r res)
  then show ?thesis by simp
qed

text \<open>C7 under the engine whose repositories retrieval fails, and under the one
  where every step succeeds.\<close>

theorem run_barrier_witness:
  "example_engine_repositories_fail (user_profile_invocation example_workflow JNull) =
     Inr (JObj [(''followers'', JInt 10)]) \<and>
   example_engine_repositories_fail (repositories_invocation example_workflow JNull) =
     Inl (ActivityError ''retrieve_repositories_activity'') \<and>
   run example_workflow example_engine_repositories_fail True JNull =
     (Inl (ActivityError ''retrieve_repositories_activity''),
      [preflight_invocation example_workflow JNull, user_profile_invocation example_workflow JNull,
       repositories_invocation example_workflow JNull]) \<and>
   activity (snd (run example_workflow example_engine True JNull) ! 3) = ComputeSummaryStats \<and>
   snd (run example_workflow example_engine True JNull) =
     [preflight_invocation example_workflow JNull, user_profile_invocation example_workflow JNull,
      repositories_invocation example_workflow JNull,
      summary_stats_invocation example_workflow (JObj [(''followers'', JInt 10)]) (JArr [JObj [], JObj []])]"
proof -
  have p: "example_engine_repositories_fail (preflight_invocation example_workflow JNull) = Inr JNull"
    by (simp add: example_engine_repositories_fail_def)
  have u: "example_engine_repositories_fail (user_profile_invocation example_workflow JNull) =
     Inr (JObj [(''followers'', JInt 10)])"
    by (simp add: example_engine_repositories_fail_def)
  have r: "example_engine_repositories_fail (repositories_invocation example_workflow JNull) =
     Inl (ActivityError ''retrieve_repositories_activity'')"
    by (simp add: example_engine_repositories_fail_def)
  have failed: "run example_workflow example_engine_repositories_fail True JNull =
     (Inl (ActivityError ''retrieve_repositories_activity''),
      [preflight_invocation example_workflow JNull, user_profile_invocation example_workflow JNull,
       repositories_invocation example_workflow JNull])"
    using run_barrier [of example_workflow example_engine_repositories_fail True JNull] p u r by blast
  have ok: "snd (run example_workflow example_engine True JNull) =
     [preflight_invocation example_workflow JNull, user_profile_invocation example_workflow JNull,
      repositories_invocation example_workflow JNull,
      summary_stats_invocation example_workflow (JObj [(''followers'', JInt 10)]) (JArr [JObj [], JObj []])]"
    by (simp add: run_def example_engine_def gather_def)
  have "\<exists>i \<in> set (snd (run example_workflow example_engine True JNull)). activity i = ComputeSummaryStats"
    unfolding ok by simp
  then have "\<exists>u r. example_engine (user_profile_invocation example_workflow JNull) = Inr u \<and>
      example_engine (repositories_invocation example_workflow JNull) = Inr r"
    using run_barrier [of example_workflow example_engine True JNull] by blast
  then show ?thesis
    using u r failed ok by simp
qed

text \<open>
  Claim C8. Every invocation that \<open>run\<close> makes declares the retry policy with at most
  6 attempts and backoff coefficient 2. The three steps other than Preflight declare
  a start-to-close timeout of 60 seconds; Preflight declares the inherited
  \<open>default_start_to_close_timeout\<close>. The base class that sets this default is not in
  the sources: where the default is as the spec says, longer than 60 seconds, the
  timeout of Preflight is longer than that of each other step.
\<close>

theorem run_declared_policy:
  "(\<forall>i \<in> set (snd (run self execute b cfg)).
      retry_policy i = \<lparr>maximum_attempts = 6, backoff_coefficient = 2\<rparr> \<and>
      (activity i = PreflightCheck \<longrightarrow>
         start_to_close_timeout i = default_start_to_close_timeout self) \<and>
      (activity i \<noteq> PreflightCheck \<longrightarrow> start_to_close_timeout i = 60)) \<and>
   (spec_default_timeout self \<longrightarrow>
      (\<forall>i \<in> set (snd (run self execute b cfg)). \<forall>j \<in> set (snd (run self execute b cfg)).
         activity i = PreflightCheck \<and> activity j \<noteq> PreflightCheck \<longrightarrow>
           start_to_close_timeout j < start_to_close_timeout i))"
proof -
  have each: "retry_policy i = \<lparr>maximum_attempts = 6, backoff_coefficient = 2\<rparr> \<and>
      (activity i = PreflightCheck \<longrightarrow>
         start_to_close_timeout i = default_start_to_close_timeout self) \<and>
      (activity i \<noteq> PreflightCheck \<longrightarrow> start_to_close_timeout i = 60)"
    if "i \<in> set (snd (run self execute b cfg))" for i
    using that
    by (cases rule: run_cases [of execute self cfg b])
      (auto simp: preflight_invocation_def user_profile_invocation_def
        repositories_invocation_def summary_stats_invocation_def run_retry_policy_def)
  show ?thesis
  proof (intro conjI ballI impI)
    fix i j
    assume "spec_default_timeout self"
      and "i \<in> set (snd (run self execute b cfg))" "j \<in> set (snd (run self execute b cfg))"
      and "activity i = PreflightCheck \<and> activity j \<noteq> PreflightCheck"
    then show "start_to_close_timeout j < start_to_close_timeout i"
      using each [of i] each [of j] by (simp add: spec_default_timeout_def)
  qed (use each in auto)
qed

text \<open>C8 at the instance with a default of two hours, where all four steps are
  invoked.\<close>

theorem run_declared_policy_witness:
  "spec_default_timeout example_workflow \<and>
   snd (run example_workflow example_engine True JNull) =
     [preflight_invocation example_workflow JNull, user_profile_invocation example_workflow JNull,
      repositories_invocation example_workflow JNull,
      summary_stats_invocation example_workflow (JObj [(''followers'', JInt 10)]) (JArr [JObj [], JObj []])] \<and>
   map retry_policy (snd (run example_workflow example_engine True JNull)) =
     replicate 4 \<lparr>maximum_attempts = 6, backoff_coefficient = 2\<rparr> \<and>
   map start_to_close_timeout (snd (run example_workflow example_engine True JNull)) = [7200, 60, 60, 60]"
proof -
  have ok: "snd (run example_workflow example_engine True JNull) =
     [preflight_invocation example_workflow JNull, user_profile_invocation example_workflow JNull,
      repositories_invocation example_workflow JNull,
      summary_stats_invocation example_workflow (JObj [(''followers'', JInt 10)]) (JArr [JObj [], JObj []])]"
    by (simp add: run_def example_engine_def gather_def)
  have spec: "spec_default_timeout example_workflow"
    by (simp add: spec_default_timeout_def example_workflow_def)
  have d: "default_start_to_close_timeout example_workflow = 7200"
    by (simp add: example_workflow_def)
  from run_declared_policy [of example_workflow example_engine True JNull]
  have "\<forall>i \<in> set (snd (run example_workflow example_engine True JNull)).
      retry_policy i = \<lparr>maximum_attempts = 6, backoff_coefficient = 2\<rparr> \<and>
      (activity i = PreflightCheck \<longrightarrow>
         start_to_close_timeout i = default_start_to_close_timeout example_workflow) \<and>
      (activity i \<noteq> PreflightCheck \<longrightarrow> start_to_close_timeout i = 60)"
    by blast
  then show ?thesis
    unfolding ok using spec ok d by (simp add: numeral_eq_Suc)
qed

end
